theory Spec2Isabelle
  imports Complex_Main
begin

section \<open>Python values, exceptions and results\<close>

text \<open>
  The expense tracker of \<^verbatim>\<open>main.py\<close> is embedded function by function. A Python
  exception is a value of \<open>py_error\<close>; a function that may raise returns
  \<open>py_error + 'a\<close>, with \<open>Inl\<close> for the exception. \<open>Unmodelled\<close> is not a Python
  exception: it marks the one place where the typed embedding stops, a stored field whose
  JSON type differs from the annotation of \<^verbatim>\<open>Expense.__init__\<close> (Python keeps such
  a value unchecked; the typed record cannot hold it).

  Python's \<^verbatim>\<open>float\<close> is a type variable \<open>'f\<close> with a zero, an addition and an
  order (\<open>0\<close>, \<open>+\<close>, \<open>\<le>\<close>) of which no law is assumed: whatever is proved holds for
  the doubles of the machine, with their rounding, their infinities and NaN. The
  conversion of an \<^verbatim>\<open>int\<close> to a \<^verbatim>\<open>float\<close> is a parameter \<open>to_float\<close>, which
  is \<open>None\<close> where Python raises \<^verbatim>\<open>OverflowError\<close>. The doubles themselves are
  the type \<open>double\<close> below, with \<open>double_of_int\<close> for \<open>to_float\<close>. A
  \<^verbatim>\<open>str\<close> is a \<open>string\<close>. The file system is taken to work: a path that exists
  can be opened, read and written.
\<close>

datatype py_error =
    ValueError string
  | KeyError string
  | TypeError
  | OverflowError
  | JSONDecodeError
  | UnicodeDecodeError
  | RecursionError
  | FileNotFoundError
  | Unmodelled

definition and_then :: "'e + 'a \<Rightarrow> ('a \<Rightarrow> 'e + 'b) \<Rightarrow> 'e + 'b" where
  "and_then r f = (case r of Inl e \<Rightarrow> Inl e | Inr x \<Rightarrow> f x)"

text \<open>What \<^verbatim>\<open>json.load\<close> returns and \<^verbatim>\<open>json.dump\<close> accepts. An object is
  an association list read with \<open>map_of\<close>.\<close>

datatype 'f json =
    JNull
  | JBool bool
  | JInt int
  | JFloat 'f
  | JString string
  | JArray "'f json list"
  | JObject "(string \<times> 'f json) list"

text \<open>The backing file, by what \<^verbatim>\<open>json.load\<close> does with it: the file is absent;
  its bytes are not text in the encoding (\<^verbatim>\<open>UnicodeDecodeError\<close>); its text is not
  JSON (\<^verbatim>\<open>JSONDecodeError\<close>); its text is JSON nested deeper than the interpreter's
  stack (\<^verbatim>\<open>RecursionError\<close>); or it is read as the given value. \<^verbatim>\<open>json.dump\<close>
  writes text of the last kind, which is the library's own round trip and is taken as
  given.\<close>

datatype 'f disk_file = Missing | Undecodable | Unparsable | Too_nested | Parsed "'f json"

fun json_load :: "'f disk_file \<Rightarrow> py_error + 'f json" where
  "json_load Missing = Inl FileNotFoundError"
| "json_load Undecodable = Inl UnicodeDecodeError"
| "json_load Unparsable = Inl JSONDecodeError"
| "json_load Too_nested = Inl RecursionError"
| "json_load (Parsed j) = Inr j"

text \<open>\<^verbatim>\<open>data[key]\<close> for a string key: a dict looks the key up, every other JSON
  value raises \<^verbatim>\<open>TypeError\<close>.\<close>

fun getitem :: "'f json \<Rightarrow> string \<Rightarrow> py_error + 'f json" where
  "getitem (JObject kvs) key =
     (case map_of kvs key of None \<Rightarrow> Inl (KeyError key) | Some v \<Rightarrow> Inr v)"
| "getitem _ key = Inl TypeError"

text \<open>\<^verbatim>\<open>for x in data\<close>: a list yields its elements, a dict its keys, a string its
  characters; numbers, booleans and \<^verbatim>\<open>None\<close> are not iterable.\<close>

fun iterate :: "'f json \<Rightarrow> py_error + 'f json list" where
  "iterate (JArray xs) = Inr xs"
| "iterate (JObject kvs) = Inr (map (\<lambda>kv. JString (fst kv)) kvs)"
| "iterate (JString s) = Inr (map (\<lambda>c. JString [c]) s)"
| "iterate _ = Inl TypeError"

fun as_int :: "'f json \<Rightarrow> py_error + int" where
  "as_int (JInt n) = Inr n"
| "as_int _ = Inl Unmodelled"

fun as_str :: "'f json \<Rightarrow> py_error + string" where
  "as_str (JString s) = Inr s"
| "as_str _ = Inl Unmodelled"

text \<open>An amount is a \<^verbatim>\<open>float\<close> or, when a file written by hand gives one, an
  \<^verbatim>\<open>int\<close>; Python keeps it as it is.\<close>

datatype 'f number = IntNum int | FloatNum 'f

fun as_number :: "'f json \<Rightarrow> py_error + 'f number" where
  "as_number (JFloat x) = Inr (FloatNum x)"
| "as_number (JInt n) = Inr (IntNum n)"
| "as_number _ = Inl Unmodelled"

fun number_json :: "'f number \<Rightarrow> 'f json" where
  "number_json (FloatNum x) = JFloat x"
| "number_json (IntNum n) = JInt n"

fun as_opt_str :: "'f json \<Rightarrow> py_error + string option" where
  "as_opt_str (JString s) = Inr (Some s)"
| "as_opt_str JNull = Inr None"
| "as_opt_str _ = Inl Unmodelled"

section \<open>The date parser\<close>

text \<open>
  \<^verbatim>\<open>datetime.strptime(s, "%d-%m-%Y")\<close> of the standard library. The format is
  turned into the regular expression
  \<^verbatim>\<open>(3[0-1]|[1-2]\d|0[1-9]|[1-9]| [1-9])-(1[0-2]|0[1-9]|[1-9])-(\d\d\d\d)\<close>,
  matched at the start of the string; text left over, a year below 1 and a day the month
  does not have are \<^verbatim>\<open>ValueError\<close>s. Each matcher lists its alternatives in the
  order the regular expression tries them. Only ASCII digits are recognised, and the
  messages are shortened.
\<close>

datatype datetime = Datetime (year: int) (month: int) (day: int)

definition is_digit :: "char \<Rightarrow> bool" where
  "is_digit c = (c \<in> set ''0123456789'')"

definition digit_val :: "char \<Rightarrow> int" where
  "digit_val c = int (of_char c) - 48"

definition match_d :: "string \<Rightarrow> (int \<times> string) list" where
  "match_d s =
     (case s of
        a # b # r \<Rightarrow>
          (if (a = CHR ''3'' \<and> b \<in> set ''01'') \<or> (a \<in> set ''12'' \<and> is_digit b)
               \<or> (a = CHR ''0'' \<and> b \<in> set ''123456789'')
           then [(10 * digit_val a + digit_val b, r)] else [])
          @ (if a \<in> set ''123456789'' then [(digit_val a, b # r)] else [])
          @ (if a = CHR '' '' \<and> b \<in> set ''123456789'' then [(digit_val b, r)] else [])
      | [a] \<Rightarrow> (if a \<in> set ''123456789'' then [(digit_val a, [])] else [])
      | [] \<Rightarrow> [])"

definition match_m :: "string \<Rightarrow> (int \<times> string) list" where
  "match_m s =
     (case s of
        a # b # r \<Rightarrow>
          (if (a = CHR ''1'' \<and> b \<in> set ''012'') \<or> (a = CHR ''0'' \<and> b \<in> set ''123456789'')
           then [(10 * digit_val a + digit_val b, r)] else [])
          @ (if a \<in> set ''123456789'' then [(digit_val a, b # r)] else [])
      | [a] \<Rightarrow> (if a \<in> set ''123456789'' then [(digit_val a, [])] else [])
      | [] \<Rightarrow> [])"

definition match_Y :: "string \<Rightarrow> (int \<times> string) list" where
  "match_Y s =
     (case s of
        a # b # c # d # r \<Rightarrow>
          (if is_digit a \<and> is_digit b \<and> is_digit c \<and> is_digit d
           then [(1000 * digit_val a + 100 * digit_val b + 10 * digit_val c + digit_val d, r)]
           else [])
      | _ \<Rightarrow> [])"

definition match_lit :: "char \<Rightarrow> string \<Rightarrow> string list" where
  "match_lit c s = (case s of a # r \<Rightarrow> (if a = c then [r] else []) | [] \<Rightarrow> [])"

definition regex_dmY :: "string \<Rightarrow> (int \<times> int \<times> int \<times> string) list" where
  "regex_dmY s =
     concat (map (\<lambda>(d, r1).
       concat (map (\<lambda>r2.
         concat (map (\<lambda>(m, r3).
           concat (map (\<lambda>r4.
             map (\<lambda>(y, r5). (d, m, y, r5)) (match_Y r4))
           (match_lit CHR ''-'' r3)))
         (match_m r2)))
       (match_lit CHR ''-'' r1)))
     (match_d s))"

definition is_leap :: "int \<Rightarrow> bool" where
  "is_leap y = (y mod 4 = 0 \<and> (y mod 100 \<noteq> 0 \<or> y mod 400 = 0))"

definition days_in_month :: "int \<Rightarrow> int \<Rightarrow> int" where
  "days_in_month y m =
     (if m = 2 then (if is_leap y then 29 else 28)
      else if m = 4 \<or> m = 6 \<or> m = 9 \<or> m = 11 then 30 else 31)"

definition strptime_dmy :: "string \<Rightarrow> py_error + datetime" where
  "strptime_dmy s =
     (case regex_dmY s of
        [] \<Rightarrow> Inl (ValueError ''time data does not match format'')
      | (d, m, y, rest) # _ \<Rightarrow>
          if rest \<noteq> [] then Inl (ValueError ''unconverted data remains'')
          else if y < 1 then Inl (ValueError ''year is out of range'')
          else if days_in_month y m < d then Inl (ValueError ''day is out of range for month'')
          else Inr (Datetime y m d))"

text \<open>\<^verbatim>\<open>==\<close> between the two kinds of object that \<^verbatim>\<open>get_total_expenses\<close>
  compares. Neither \<^verbatim>\<open>datetime.__eq__\<close> nor \<^verbatim>\<open>int.__eq__\<close> accepts the
  other type, so Python falls back to identity and the answer is \<^verbatim>\<open>False\<close>.\<close>

datatype pyobj = PyInt int | PyDatetime datetime

fun py_eq :: "pyobj \<Rightarrow> pyobj \<Rightarrow> bool" where
  "py_eq (PyInt a) (PyInt b) = (a = b)"
| "py_eq (PyDatetime a) (PyDatetime b) = (a = b)"
| "py_eq _ _ = False"

section \<open>Expense\<close>

record 'f Expense =
  id' :: int
  title :: string
  description :: string
  amount :: "'f number"
  date :: string

text \<open>\<^verbatim>\<open>Expense.__init__\<close>. \<open>today\<close> is
  \<^verbatim>\<open>datetime.now().strftime("%d-%m-%Y")\<close>; \<^verbatim>\<open>date or ...\<close> takes the
  default for \<^verbatim>\<open>None\<close> and for the empty string, both being falsy.\<close>

definition Expense_init ::
  "string \<Rightarrow> int \<Rightarrow> string \<Rightarrow> string \<Rightarrow> 'f number \<Rightarrow> string option \<Rightarrow> 'f Expense" where
  "Expense_init today i t d a dt =
     \<lparr>id' = i, title = t, description = d, amount = a,
      date = (case dt of None \<Rightarrow> today | Some s \<Rightarrow> if s = [] then today else s)\<rparr>"

definition to_dict :: "'f Expense \<Rightarrow> 'f json" where
  "to_dict e =
     JObject [(''id'', JInt (id' e)), (''title'', JString (title e)),
              (''description'', JString (description e)), (''amount'', number_json (amount e)),
              (''date'', JString (date e))]"

text \<open>\<^verbatim>\<open>Expense.from_dict\<close>: the five subscripts are evaluated in the order of the
  keyword arguments, so the first missing key is the one reported.\<close>

definition from_dict :: "string \<Rightarrow> 'f json \<Rightarrow> py_error + 'f Expense" where
  "from_dict today data =
     and_then (getitem data ''id'') (\<lambda>i.
     and_then (getitem data ''title'') (\<lambda>t.
     and_then (getitem data ''description'') (\<lambda>d.
     and_then (getitem data ''amount'') (\<lambda>a.
     and_then (getitem data ''date'') (\<lambda>dt.
     and_then (as_int i) (\<lambda>i'.
     and_then (as_str t) (\<lambda>t'.
     and_then (as_str d) (\<lambda>d'.
     and_then (as_number a) (\<lambda>a'.
     and_then (as_opt_str dt) (\<lambda>dt'.
       Inr (Expense_init today i' t' d' a' dt')))))))))))"

section \<open>ExpenseTracker\<close>

text \<open>The tracker's state: the list \<^verbatim>\<open>self.expenses\<close> and the content of the file
  at \<^verbatim>\<open>self.data_file\<close>.\<close>

record 'f tracker =
  data_file :: "'f disk_file"
  expenses :: "'f Expense list"

fun from_dicts :: "string \<Rightarrow> 'f json list \<Rightarrow> py_error + 'f Expense list" where
  "from_dicts today [] = Inr []"
| "from_dicts today (x # xs) =
     and_then (from_dict today x) (\<lambda>e.
     and_then (from_dicts today xs) (\<lambda>es. Inr (e # es)))"

definition load_expenses :: "string \<Rightarrow> 'f disk_file \<Rightarrow> py_error + 'f Expense list" where
  "load_expenses today f =
     (case f of
        Missing \<Rightarrow> Inr []
      | _ \<Rightarrow>
          (case and_then (json_load f) (\<lambda>data.
                and_then (iterate data) (from_dicts today)) of
             Inl JSONDecodeError \<Rightarrow> Inr []
           | Inl (KeyError k) \<Rightarrow> Inr []
           | r \<Rightarrow> r))"

definition tracker_init :: "string \<Rightarrow> 'f disk_file \<Rightarrow> py_error + 'f tracker" where
  "tracker_init today f =
     and_then (load_expenses today f) (\<lambda>es. Inr \<lparr>data_file = f, expenses = es\<rparr>)"

definition save_expenses :: "'f tracker \<Rightarrow> 'f tracker" where
  "save_expenses s = s\<lparr>data_file := Parsed (JArray (map to_dict (expenses s)))\<rparr>"

definition get_next_id :: "'f tracker \<Rightarrow> int" where
  "get_next_id s =
     (case expenses s of [] \<Rightarrow> 1 | e # es \<Rightarrow> foldl max (id' e) (map id' es) + 1)"

definition add_expense ::
  "string \<Rightarrow> string \<Rightarrow> string \<Rightarrow> 'f::{zero,ord} \<Rightarrow> 'f tracker
     \<Rightarrow> (py_error + 'f Expense) \<times> 'f tracker" where
  "add_expense today t d a s =
     (if a \<le> 0 then (Inl (ValueError ''Amount must be positive.''), s)
      else
        let expense = Expense_init today (get_next_id s) t d (FloatNum a) None
        in (Inr expense, save_expenses (s\<lparr>expenses := expenses s @ [expense]\<rparr>)))"

text \<open>The loop of \<^verbatim>\<open>delete_expense\<close>: the first record with the id is removed;
  \<open>None\<close> when the loop ends without a match.\<close>

fun delete_first :: "int \<Rightarrow> 'f Expense list \<Rightarrow> 'f Expense list option" where
  "delete_first i [] = None"
| "delete_first i (e # es) =
     (if id' e = i then Some es else map_option ((#) e) (delete_first i es))"

definition delete_expense :: "int \<Rightarrow> 'f tracker \<Rightarrow> bool \<times> 'f tracker" where
  "delete_expense expense_id s =
     (case delete_first expense_id (expenses s) of
        None \<Rightarrow> (False, s)
      | Some es \<Rightarrow> (True, save_expenses (s\<lparr>expenses := es\<rparr>)))"

text \<open>The body of \<^verbatim>\<open>update_expense\<close> for the matching record: the assignments in
  the order of the source, each already made when a later line raises.\<close>

definition update_fields ::
  "string option \<Rightarrow> string option \<Rightarrow> 'f::{zero,ord} option \<Rightarrow> 'f Expense
     \<Rightarrow> (py_error + unit) \<times> 'f Expense" where
  "update_fields t d a e =
     (let e1 = (case t of None \<Rightarrow> e | Some t' \<Rightarrow> e\<lparr>title := t'\<rparr>);
          e2 = (case d of None \<Rightarrow> e1 | Some d' \<Rightarrow> e1\<lparr>description := d'\<rparr>)
      in case a of
           None \<Rightarrow> (Inr (), e2)
         | Some a' \<Rightarrow>
             if a' \<le> 0 then (Inl (ValueError ''Amount must be positive.''), e2)
             else (Inr (), e2\<lparr>amount := FloatNum a'\<rparr>))"

fun update_first ::
  "int \<Rightarrow> string option \<Rightarrow> string option \<Rightarrow> 'f::{zero,ord} option \<Rightarrow> 'f Expense list
     \<Rightarrow> (py_error + unit) option \<times> 'f Expense list" where
  "update_first i t d a [] = (None, [])"
| "update_first i t d a (e # es) =
     (if id' e = i then (case update_fields t d a e of (r, e') \<Rightarrow> (Some r, e' # es))
      else (case update_first i t d a es of (r, es') \<Rightarrow> (r, e # es')))"

definition update_expense ::
  "int \<Rightarrow> string option \<Rightarrow> string option \<Rightarrow> 'f::{zero,ord} option \<Rightarrow> 'f tracker
     \<Rightarrow> (py_error + bool) \<times> 'f tracker" where
  "update_expense expense_id t d a s =
     (case update_first expense_id t d a (expenses s) of
        (None, es) \<Rightarrow> (Inr False, s)
      | (Some (Inl err), es) \<Rightarrow> (Inl err, s\<lparr>expenses := es\<rparr>)
      | (Some (Inr u), es) \<Rightarrow> (Inr True, save_expenses (s\<lparr>expenses := es\<rparr>)))"

definition list_expenses :: "'f tracker \<Rightarrow> 'f Expense list" where
  "list_expenses s = expenses s"

text \<open>The operand that \<^verbatim>\<open>total + x\<close> adds to a float total: a float as it is, an
  \<^verbatim>\<open>int\<close> converted, which fails when the \<^verbatim>\<open>int\<close> is too large.\<close>

fun float_of :: "(int \<Rightarrow> 'f option) \<Rightarrow> 'f number \<Rightarrow> 'f option" where
  "float_of to_float (IntNum n) = to_float n"
| "float_of to_float (FloatNum x) = Some x"

text \<open>\<^verbatim>\<open>total += expense.amount\<close>, the total being a float from \<^verbatim>\<open>0.0\<close> on.\<close>

definition add_amount :: "(int \<Rightarrow> 'f option) \<Rightarrow> 'f::plus \<Rightarrow> 'f number \<Rightarrow> py_error + 'f" where
  "add_amount to_float total' a =
     (case float_of to_float a of
        None \<Rightarrow> Inl OverflowError
      | Some x \<Rightarrow> Inr (total' + x))"

text \<open>The loop of \<^verbatim>\<open>get_total_expenses\<close>, with the running total as accumulator.
  The date is parsed before the month is looked at.\<close>

fun total_loop ::
  "(int \<Rightarrow> 'f option) \<Rightarrow> int \<Rightarrow> int option \<Rightarrow> 'f::plus \<Rightarrow> 'f Expense list \<Rightarrow> py_error + 'f" where
  "total_loop to_float current_year mon total' [] = Inr total'"
| "total_loop to_float current_year mon total' (expense # es) =
     (case strptime_dmy (date expense) of
        Inl err \<Rightarrow> Inl err
      | Inr expense_date \<Rightarrow>
          (case mon of
             None \<Rightarrow>
               (case add_amount to_float total' (amount expense) of
                  Inl err \<Rightarrow> Inl err
                | Inr total'' \<Rightarrow> total_loop to_float current_year mon total'' es)
           | Some m \<Rightarrow>
               if month expense_date = m
                  \<and> py_eq (PyDatetime expense_date) (PyInt current_year)
               then
                 (case add_amount to_float total' (amount expense) of
                    Inl err \<Rightarrow> Inl err
                  | Inr total'' \<Rightarrow> total_loop to_float current_year mon total'' es)
               else total_loop to_float current_year mon total' es))"

definition get_total_expenses ::
  "(int \<Rightarrow> 'f option) \<Rightarrow> int \<Rightarrow> int option \<Rightarrow> 'f::{zero,plus} tracker \<Rightarrow> py_error + 'f" where
  "get_total_expenses to_float current_year mon s =
     total_loop to_float current_year mon 0 (expenses s)"

section \<open>The doubles\<close>

text \<open>
  Python's \<^verbatim>\<open>float\<close> on the usual platforms: IEEE 754 binary64 with rounding to
  nearest, ties to even. \<open>Finite m e\<close> is the number \<open>m * 2 ^ e\<close>, kept with \<open>m\<close> odd,
  or \<open>Finite 0 0\<close> for \<^verbatim>\<open>0.0\<close>; \<open>NegZero\<close> is \<^verbatim>\<open>-0.0\<close>. Only what the
  tracker uses is defined: \<^verbatim>\<open>0.0\<close>, \<^verbatim>\<open>+\<close>, \<^verbatim>\<open><=\<close> and the conversion of
  an \<^verbatim>\<open>int\<close>.
\<close>

datatype double = Finite int int | NegZero | PosInf | NegInf | NaN

text \<open>The number of binary digits of a positive integer.\<close>

function nbits :: "int \<Rightarrow> int" where
  "nbits n = (if n \<le> 0 then 0 else 1 + nbits (n div 2))"
  by pat_completeness auto
termination
  by (relation "measure nat") auto

text \<open>\<open>m * 2 ^ e\<close> with the factors of two moved from \<open>m\<close> to the exponent.\<close>

function strip_zeros :: "int \<Rightarrow> int \<Rightarrow> int \<times> int" where
  "strip_zeros m e = (if m \<noteq> 0 \<and> even m then strip_zeros (m div 2) (e + 1) else (m, e))"
  by pat_completeness auto
termination
  by (relation "measure (\<lambda>(m, e). nat \<bar>m\<bar>)") auto

declare nbits.simps [simp del] strip_zeros.simps [simp del]

text \<open>\<open>a / 2 ^ k\<close> for \<open>a \<ge> 0\<close>, rounded to the nearest integer, a tie to the even
  one.\<close>

definition round_half_even :: "int \<Rightarrow> nat \<Rightarrow> int" where
  "round_half_even a k =
     (let q = a div 2 ^ k; r = a mod 2 ^ k
      in if 2 * r < 2 ^ k then q
         else if 2 ^ k < 2 * r then q + 1
         else if even q then q else q + 1)"

definition finite_of :: "int \<Rightarrow> int \<Rightarrow> double" where
  "finite_of m e = (case strip_zeros m e of (m', e') \<Rightarrow> Finite m' e')"

text \<open>The double nearest to \<open>m * 2 ^ e\<close>, for \<open>m \<noteq> 0\<close>: 53 binary digits are kept,
  fewer below \<open>2 ^ - 1022\<close> where the spacing stays \<open>2 ^ - 1074\<close>, and a result of
  \<open>2 ^ 1024\<close> or more is an infinity.\<close>

definition to_double :: "int \<Rightarrow> int \<Rightarrow> double" where
  "to_double m e =
     (let b = nbits \<bar>m\<bar>;
          u = max (b + e - 53) (- 1074);
          n = round_half_even \<bar>m\<bar> (nat (u - e));
          x = max u e
      in if n = 0 then (if m < 0 then NegZero else Finite 0 0)
         else if 1024 < nbits n + x then (if m < 0 then NegInf else PosInf)
         else finite_of (if m < 0 then - n else n) x)"

text \<open>Addition. The exact sum of two finite doubles is rounded; an exact sum of zero
  is \<^verbatim>\<open>0.0\<close>, and \<^verbatim>\<open>-0.0\<close> only comes from \<^verbatim>\<open>-0.0 + -0.0\<close>.\<close>

fun dadd :: "double \<Rightarrow> double \<Rightarrow> double" where
  "dadd NaN y = NaN"
| "dadd x NaN = NaN"
| "dadd PosInf NegInf = NaN"
| "dadd NegInf PosInf = NaN"
| "dadd PosInf y = PosInf"
| "dadd x PosInf = PosInf"
| "dadd NegInf y = NegInf"
| "dadd x NegInf = NegInf"
| "dadd NegZero y = y"
| "dadd x NegZero = x"
| "dadd (Finite m1 e1) (Finite m2 e2) =
     (let e = min e1 e2; m = m1 * 2 ^ nat (e1 - e) + m2 * 2 ^ nat (e2 - e)
      in if m = 0 then Finite 0 0 else to_double m e)"

text \<open>Comparison. NaN compares false with everything; the two zeros are equal.\<close>

fun scaled :: "double \<Rightarrow> int \<times> int" where
  "scaled (Finite m e) = (m, e)"
| "scaled x = (0, 0)"

definition finite_le :: "double \<Rightarrow> double \<Rightarrow> bool" where
  "finite_le x y =
     (case (scaled x, scaled y) of
        ((m1, e1), (m2, e2)) \<Rightarrow>
          m1 * 2 ^ nat (e1 - min e1 e2) \<le> m2 * 2 ^ nat (e2 - min e1 e2))"

fun dle :: "double \<Rightarrow> double \<Rightarrow> bool" where
  "dle NaN y = False"
| "dle x NaN = False"
| "dle NegInf y = True"
| "dle x PosInf = True"
| "dle PosInf y = False"
| "dle x NegInf = False"
| "dle x y = finite_le x y"

instantiation double :: "{zero, plus, ord}"
begin

definition zero_double :: double where
  "zero_double = Finite 0 0"

definition plus_double :: "double \<Rightarrow> double \<Rightarrow> double" where
  "plus_double x y = dadd x y"

definition less_eq_double :: "double \<Rightarrow> double \<Rightarrow> bool" where
  "less_eq_double x y = dle x y"

definition less_double :: "double \<Rightarrow> double \<Rightarrow> bool" where
  "less_double x y = (dle x y \<and> \<not> dle y x)"

instance ..

end

text \<open>\<^verbatim>\<open>float(n)\<close> for an \<^verbatim>\<open>int\<close>: the nearest double, and
  \<^verbatim>\<open>OverflowError\<close> (here \<open>None\<close>) when that would be an infinity.\<close>

definition double_of_int :: "int \<Rightarrow> double option" where
  "double_of_int n =
     (if n = 0 then Some (Finite 0 0)
      else case to_double n 0 of
             PosInf \<Rightarrow> None
           | NegInf \<Rightarrow> None
           | x \<Rightarrow> Some x)"

section \<open>Vocabulary of the properties\<close>

text \<open>A date string is well formed when the parser of \<^verbatim>\<open>get_total_expenses\<close>
  accepts it.\<close>

definition date_parses :: "string \<Rightarrow> bool" where
  "date_parses s = (case strptime_dmy s of Inl err \<Rightarrow> False | Inr d \<Rightarrow> True)"

text \<open>The condition of the \<^verbatim>\<open>elif\<close> branch of \<^verbatim>\<open>get_total_expenses\<close>, as a
  predicate on a record.\<close>

definition month_filter :: "int \<Rightarrow> int \<Rightarrow> 'f Expense \<Rightarrow> bool" where
  "month_filter current_year m expense =
     (case strptime_dmy (date expense) of
        Inl err \<Rightarrow> False
      | Inr expense_date \<Rightarrow>
          month expense_date = m \<and> py_eq (PyDatetime expense_date) (PyInt current_year))"

text \<open>The amounts of a list of records added up as the loop does, in order, from a
  given total.\<close>

fun sum_amounts :: "(int \<Rightarrow> 'f option) \<Rightarrow> 'f::plus \<Rightarrow> 'f number list \<Rightarrow> py_error + 'f" where
  "sum_amounts to_float total' [] = Inr total'"
| "sum_amounts to_float total' (a # as) =
     (case add_amount to_float total' a of
        Inl err \<Rightarrow> Inl err
      | Inr total'' \<Rightarrow> sum_amounts to_float total'' as)"

text \<open>Sequences of calls on one tracker: \<open>run\<close> gives the state they end in,
  \<open>assigned_ids\<close> the ids of the records that the successful adds returned, in order.\<close>

datatype 'f call = is_Add: Add string string 'f | Delete int

fun step :: "string \<Rightarrow> 'f::{zero,ord} call \<Rightarrow> 'f tracker \<Rightarrow> 'f tracker" where
  "step today (Add t d a) s = snd (add_expense today t d a s)"
| "step today (Delete i) s = snd (delete_expense i s)"

fun run :: "string \<Rightarrow> 'f::{zero,ord} call list \<Rightarrow> 'f tracker \<Rightarrow> 'f tracker" where
  "run today [] s = s"
| "run today (c # cs) s = run today cs (step today c s)"

fun assigned_ids :: "string \<Rightarrow> 'f::{zero,ord} call list \<Rightarrow> 'f tracker \<Rightarrow> int list" where
  "assigned_ids today [] s = []"
| "assigned_ids today (Add t d a # cs) s =
     (case add_expense today t d a s of
        (Inr e, s') \<Rightarrow> id' e # assigned_ids today cs s'
      | (Inl err, s') \<Rightarrow> assigned_ids today cs s')"
| "assigned_ids today (Delete i # cs) s = assigned_ids today cs (snd (delete_expense i s))"

text \<open>Records and states used as concrete inputs. These three are used where no
  arithmetic is done on amounts; their amounts (3.5, 12, 1.5) are written as reals.\<close>

definition coffee :: "real Expense" where
  "coffee = \<lparr>id' = 1, title = ''Coffee'', description = ''morning'',
     amount = FloatNum (7 / 2), date = ''15-01-2024''\<rparr>"

definition book :: "real Expense" where
  "book = \<lparr>id' = 2, title = ''Book'', description = ''novel'', amount = FloatNum 12,
     date = ''03-02-2023''\<rparr>"

definition iso_dated :: "real Expense" where
  "iso_dated = \<lparr>id' = 3, title = ''Pen'', description = ''office'', amount = FloatNum (3 / 2),
     date = ''2024-01-15''\<rparr>"

text \<open>Records over the doubles, for the sums. The amounts of \<open>machine\<close> and
  \<open>stamp\<close> are the floats \<^verbatim>\<open>1e16\<close> and \<^verbatim>\<open>1.0\<close>. Those of \<open>rent\<close> and
  \<open>yacht\<close> are \<^verbatim>\<open>int\<close>s, as a file edited by hand gives them when the amount is
  written without a decimal point. \<open>misdated\<close> is dated year first.\<close>

definition machine :: "double Expense" where
  "machine = \<lparr>id' = 1, title = ''Machine'', description = ''press'',
     amount = FloatNum (Finite 152587890625 16), date = ''01-02-2024''\<rparr>"



definition yacht :: "double Expense" where
  "yacht = \<lparr>id' = 4, title = ''Yacht'', description = ''dream'', amount = IntNum (10 ^ 400),
     date = ''01-03-2024''\<rparr>"

definition misdated :: "double Expense" where
  "misdated = \<lparr>id' = 5, title = ''Pen'', description = ''office'',
     amount = FloatNum (Finite 3 (- 1)), date = ''2024-01-15''\<rparr>"

definition empty_tracker :: "real tracker" where
  "empty_tracker = \<lparr>data_file = Missing, expenses = []\<rparr>"

text \<open>What the file holds for the record \<open>coffee\<close>, with the date field left open.\<close>

definition stored :: "string \<Rightarrow> real json" where
  "stored dt = JObject [(''id'', JInt 1), (''title'', JString ''Coffee''),
     (''description'', JString ''morning''), (''amount'', JFloat (7 / 2)),
     (''date'', JString dt)]"

section \<open>The date parser and the summary loop\<close>

lemmas strptime_eval =
  strptime_dmy_def regex_dmY_def match_d_def match_m_def match_Y_def match_lit_def
  is_digit_def digit_val_def days_in_month_def is_leap_def

lemma strptime_dmy_error: "strptime_dmy s = Inl err \<Longrightarrow> \<exists>msg. err = ValueError msg"
  by (auto simp: strptime_dmy_def split: list.splits prod.splits if_splits)

lemma strptime_dmy_empty:
  "strptime_dmy [] = Inl (ValueError ''time data does not match format'')"
  by (simp add: strptime_eval)

lemma date_parses_nonempty: "date_parses s \<Longrightarrow> s \<noteq> []"
  by (auto simp: date_parses_def strptime_dmy_empty)

lemma coffee_parses: "strptime_dmy (date coffee) = Inr (Datetime 2024 1 15)"
  by (simp add: coffee_def strptime_eval)

lemma book_parses: "strptime_dmy (date book) = Inr (Datetime 2023 2 3)"
  by (simp add: book_def strptime_eval)

lemma iso_dated_fails:
  "strptime_dmy (date iso_dated) = Inl (ValueError ''time data does not match format'')"
  by (simp add: iso_dated_def strptime_eval)

lemma machine_parses: "strptime_dmy (date machine) = Inr (Datetime 2024 2 1)"
  by (simp add: machine_def strptime_eval)



lemma yacht_parses: "strptime_dmy (date yacht) = Inr (Datetime 2024 3 1)"
  by (simp add: yacht_def strptime_eval)

lemma misdated_fails:
  "strptime_dmy (date misdated) = Inl (ValueError ''time data does not match format'')"
  by (simp add: misdated_def strptime_eval)

text \<open>The doubles at work: \<open>Finite 152587890625 16\<close> is \<^verbatim>\<open>1e16\<close>; adding
  \<^verbatim>\<open>1.0\<close> to it is lost in rounding; 900 converts exactly and \<open>10 ^ 400\<close> does not
  convert.\<close>

lemma double_1e16: "double_of_int (10 ^ 16) = Some (Finite 152587890625 16)"
  by code_simp


lemma double_yacht: "double_of_int (10 ^ 400) = None"
  by code_simp

lemma double_rounding: "(0 :: double) + Finite 152587890625 16 + Finite 1 0 = Finite 152587890625 16"
  by code_simp


lemma double_sum_one: "(0 :: double) + Finite 152587890625 16 = Finite 152587890625 16"
  by code_simp

lemma double_exact_sum: "(10 :: int) ^ 16 + 1 + 900 = 2500000000000225 * 2 ^ 2 + 1"
  by simp

lemma machine_amount: "amount machine = FloatNum (Finite 152587890625 16)"
  by (simp add: machine_def)



lemma yacht_amount: "amount yacht = IntNum (10 ^ 400)"
  by (simp add: yacht_def)

lemma total_loop_no_month:
  "\<forall>e\<in>set es. date_parses (date e) \<Longrightarrow>
     total_loop to_float cy None acc es = sum_amounts to_float acc (map amount es)"
  by (induction es arbitrary: acc) (auto simp: date_parses_def split: sum.splits)

lemma total_loop_month:
  "\<forall>e\<in>set es. date_parses (date e) \<Longrightarrow>
     total_loop to_float cy (Some m) acc es =
       sum_amounts to_float acc (map amount (filter (month_filter cy m) es))"
  by (induction es arbitrary: acc)
    (auto simp: date_parses_def month_filter_def split: sum.splits)

lemma month_filter_never: "\<not> month_filter cy m e"
  by (simp add: month_filter_def split: sum.splits)


lemma sum_amounts_overflow:
  "\<exists>a\<in>set as. float_of to_float a = None \<Longrightarrow> sum_amounts to_float acc as = Inl OverflowError"
proof (induction as arbitrary: acc)
  case Nil
  then show ?case by simp
next
  case (Cons a as)
  show ?case
  proof (cases "float_of to_float a")
    case None
    then show ?thesis by (simp add: add_amount_def)
  next
    case (Some x)
    with Cons.prems have "\<exists>b\<in>set as. float_of to_float b = None" by auto
    from Cons.IH [OF this] Some show ?thesis by (simp add: add_amount_def)
  qed
qed

lemma sum_amounts_returns:
  "\<forall>a\<in>set as. float_of to_float a \<noteq> None \<Longrightarrow> \<exists>r. sum_amounts to_float acc as = Inr r"
  by (induction as arbitrary: acc) (auto simp: add_amount_def)

lemma add_amount_error: "add_amount to_float acc a = Inl err \<Longrightarrow> err = OverflowError"
  by (auto simp: add_amount_def split: option.splits)

lemma total_loop_raises:
  "\<exists>e\<in>set es. \<not> date_parses (date e) \<Longrightarrow>
     \<exists>err. total_loop to_float cy mon acc es = Inl err
       \<and> (err = OverflowError \<or> (\<exists>msg. err = ValueError msg))"
proof (induction es arbitrary: acc)
  case Nil
  then show ?case by simp
next
  case (Cons e es)
  show ?case
  proof (cases "strptime_dmy (date e)")
    case (Inl err)
    then show ?thesis using strptime_dmy_error [OF Inl] by auto
  next
    case (Inr d)
    then have rest: "\<exists>x\<in>set es. \<not> date_parses (date x)"
      using Cons.prems by (auto simp: date_parses_def)
    show ?thesis
    proof (cases "add_amount to_float acc (amount e)")
      case bad: (Inl err)
      from add_amount_error [OF bad] bad Inr Cons.IH [OF rest, of acc] show ?thesis
        by (cases mon) auto
    next
      case ok: (Inr acc')
      from ok Inr Cons.IH [OF rest, of acc] Cons.IH [OF rest, of acc'] show ?thesis
        by (cases mon) auto
    qed
  qed
qed

text \<open>
  \<^bold>\<open>C1\<close> (as amended). When every record's date parses, \<^verbatim>\<open>get_total_expenses(month)\<close>
  returns the sum of the amounts of the records that pass the filter "parsed month equals
  the given month and the parsed date, a whole \<^verbatim>\<open>datetime\<close>, equals the current year,
  an \<^verbatim>\<open>int\<close>"; no record passes it, so the monthly total is 0 for every month and
  every current year.
\<close>

theorem get_total_expenses_month:
  assumes "\<forall>e\<in>set (expenses s). date_parses (date e)"
  shows "get_total_expenses to_float current_year (Some m) s =
           sum_amounts to_float 0 (map amount (filter (month_filter current_year m) (expenses s)))
         \<and> filter (month_filter current_year m) (expenses s) = []
         \<and> get_total_expenses to_float current_year (Some m) s = Inr 0"
proof -
  have total: "get_total_expenses to_float current_year (Some m) s =
      sum_amounts to_float 0 (map amount (filter (month_filter current_year m) (expenses s)))"
    using total_loop_month [OF assms] by (simp add: get_total_expenses_def)
  have none: "filter (month_filter current_year m) (expenses s) = []"
    by (simp add: month_filter_never)
  from total none show ?thesis by simp
qed

text \<open>A record of January 2024 is left out of the January total of 2024.\<close>

theorem get_total_expenses_month_witness:
  "date_parses (date coffee) \<and> date_parses (date book)
   \<and> month (Datetime 2024 1 15) = 1 \<and> year (Datetime 2024 1 15) = 2024
   \<and> get_total_expenses (\<lambda>n. Some (real_of_int n)) 2024 (Some 1)
        \<lparr>data_file = Missing, expenses = [coffee, book]\<rparr> = Inr 0"
proof -
  have parses: "date_parses (date coffee)" "date_parses (date book)"
    by (simp_all add: date_parses_def coffee_parses book_parses)
  then have "\<forall>e\<in>set (expenses \<lparr>data_file = Missing, expenses = [coffee, book]\<rparr>).
      date_parses (date e)"
    by simp
  from get_total_expenses_month [OF this, of "\<lambda>n. Some (real_of_int n)" 2024 1] parses
  show ?thesis by simp
qed

text \<open>The claim as stated (total 0 for every collection) fails on a collection that
  holds a record dated year first: the call raises instead of returning 0.\<close>

theorem get_total_expenses_month_counterexample:
  "get_total_expenses (\<lambda>n. Some (real_of_int n)) 2024 (Some 1)
     \<lparr>data_file = Missing, expenses = [coffee, iso_dated]\<rparr>
     = Inl (ValueError ''time data does not match format'')"
  by (simp add: get_total_expenses_def coffee_parses iso_dated_fails)




text \<open>
  \<^bold>\<open>C10\<close> (as amended). \<^verbatim>\<open>get_total_expenses\<close> parses every record's date, with or
  without a month argument, so it raises an error instead of returning a total as soon as
  some record's date does not parse. When every date parses and every amount is a float,
  or an \<^verbatim>\<open>int\<close> that converts to one, it returns a total. When every date parses, no
  month is given and some amount is an \<^verbatim>\<open>int\<close> too large for a float, it raises
  \<^verbatim>\<open>OverflowError\<close>.
\<close>

theorem get_total_expenses_raises:
  "((\<exists>e\<in>set (expenses s). \<not> date_parses (date e)) \<longrightarrow>
      (\<exists>err. get_total_expenses to_float current_year mon s = Inl err
         \<and> (err = OverflowError \<or> (\<exists>msg. err = ValueError msg))))
   \<and> ((\<forall>e\<in>set (expenses s). date_parses (date e))
        \<and> (\<forall>e\<in>set (expenses s). float_of to_float (amount e) \<noteq> None) \<longrightarrow>
      (\<exists>total'. get_total_expenses to_float current_year mon s = Inr total'))
   \<and> ((\<forall>e\<in>set (expenses s). date_parses (date e))
        \<and> (\<exists>e\<in>set (expenses s). float_of to_float (amount e) = None) \<longrightarrow>
      get_total_expenses to_float current_year None s = Inl OverflowError)"
proof (intro conjI impI)
  assume "\<exists>e\<in>set (expenses s). \<not> date_parses (date e)"
  then show "\<exists>err. get_total_expenses to_float current_year mon s = Inl err
      \<and> (err = OverflowError \<or> (\<exists>msg. err = ValueError msg))"
    unfolding get_total_expenses_def by (rule total_loop_raises)
next
  assume ok: "(\<forall>e\<in>set (expenses s). date_parses (date e))
      \<and> (\<forall>e\<in>set (expenses s). float_of to_float (amount e) \<noteq> None)"
  then have dates: "\<forall>e\<in>set (expenses s). date_parses (date e)" by simp
  show "\<exists>total'. get_total_expenses to_float current_year mon s = Inr total'"
  proof (cases mon)
    case None
    from ok have "\<forall>a\<in>set (map amount (expenses s)). float_of to_float a \<noteq> None" by simp
    from sum_amounts_returns [OF this] None show ?thesis
      using total_loop_no_month [OF dates] by (simp add: get_total_expenses_def)
  next
    case (Some m)
    then show ?thesis
      using total_loop_month [OF dates] by (simp add: get_total_expenses_def month_filter_never)
  qed
next
  assume bad: "(\<forall>e\<in>set (expenses s). date_parses (date e))
      \<and> (\<exists>e\<in>set (expenses s). float_of to_float (amount e) = None)"
  then have dates: "\<forall>e\<in>set (expenses s). date_parses (date e)" by simp
  from bad have "\<exists>a\<in>set (map amount (expenses s)). float_of to_float a = None" by auto
  from sum_amounts_overflow [OF this]
  show "get_total_expenses to_float current_year None s = Inl OverflowError"
    using total_loop_no_month [OF dates] by (simp add: get_total_expenses_def)
qed

theorem get_total_expenses_raises_witness:
  "\<not> date_parses (date misdated) \<and> date_parses (date machine) \<and> date_parses (date yacht)
   \<and> float_of double_of_int (amount machine) \<noteq> None
   \<and> float_of double_of_int (amount yacht) = None
   \<and> get_total_expenses double_of_int 2024 None
        \<lparr>data_file = Missing, expenses = [machine, misdated]\<rparr>
       = Inl (ValueError ''time data does not match format'')
   \<and> get_total_expenses double_of_int 2024 None
        \<lparr>data_file = Missing, expenses = [machine]\<rparr> = Inr (Finite 152587890625 16)
   \<and> get_total_expenses double_of_int 2024 None
        \<lparr>data_file = Missing, expenses = [machine, yacht]\<rparr> = Inl OverflowError"
proof -
  have bad: "\<not> date_parses (date misdated)" and good: "date_parses (date machine)"
    and good': "date_parses (date yacht)"
    by (simp_all add: date_parses_def misdated_fails machine_parses yacht_parses)
  have conv: "float_of double_of_int (amount machine) \<noteq> None"
    and over: "float_of double_of_int (amount yacht) = None"
    unfolding machine_amount yacht_amount using double_yacht by simp_all
  have 1: "\<exists>e\<in>set (expenses \<lparr>data_file = Missing, expenses = [machine, misdated]\<rparr>).
      \<not> date_parses (date e)"
    using bad by simp
  have 2: "(\<forall>e\<in>set (expenses \<lparr>data_file = Missing, expenses = [machine]\<rparr>).
        date_parses (date e))
      \<and> (\<forall>e\<in>set (expenses \<lparr>data_file = Missing, expenses = [machine]\<rparr>).
        float_of double_of_int (amount e) \<noteq> None)"
    using good conv by simp
  have 3: "(\<forall>e\<in>set (expenses \<lparr>data_file = Missing, expenses = [machine, yacht]\<rparr>).
        date_parses (date e))
      \<and> (\<exists>e\<in>set (expenses \<lparr>data_file = Missing, expenses = [machine, yacht]\<rparr>).
        float_of double_of_int (amount e) = None)"
    using good good' over by simp
  have ev: "get_total_expenses double_of_int 2024 None
        \<lparr>data_file = Missing, expenses = [machine, misdated]\<rparr>
       = Inl (ValueError ''time data does not match format'')"
    "get_total_expenses double_of_int 2024 None
        \<lparr>data_file = Missing, expenses = [machine]\<rparr> = Inr (Finite 152587890625 16)"
    by (simp_all add: get_total_expenses_def machine_parses misdated_fails add_amount_def
        machine_amount double_sum_one)
  from get_total_expenses_raises
      [of "\<lparr>data_file = Missing, expenses = [machine, misdated]\<rparr>" double_of_int 2024 None]
    get_total_expenses_raises
      [of "\<lparr>data_file = Missing, expenses = [machine]\<rparr>" double_of_int 2024 None]
    get_total_expenses_raises
      [of "\<lparr>data_file = Missing, expenses = [machine, yacht]\<rparr>" double_of_int 2024 None]
    1 2 3 bad good good' conv over ev
  show ?thesis by blast
qed

text \<open>The claim as stated (no error when every date is well formed) fails on a
  collection loaded from a file that gives an amount as the integer \<open>10 ^ 400\<close>: both
  dates parse, and \<^verbatim>\<open>total += expense.amount\<close> raises \<^verbatim>\<open>OverflowError\<close>, the
  integer being too large to convert to a float.\<close>

theorem get_total_expenses_raises_counterexample:
  "date_parses (date machine) \<and> date_parses (date yacht)
   \<and> get_total_expenses double_of_int 2024 None
        \<lparr>data_file = Missing, expenses = [machine, yacht]\<rparr> = Inl OverflowError"
proof -
  have "float_of double_of_int (amount yacht) = None"
    unfolding yacht_amount using double_yacht by simp
  then show ?thesis
    by (simp add: get_total_expenses_def date_parses_def machine_parses yacht_parses
        add_amount_def machine_amount double_sum_one)
qed

section \<open>Rejected amounts and absent ids\<close>

lemma update_first_split:
  "\<forall>x\<in>set xs. id' x \<noteq> i \<Longrightarrow> id' e = i \<Longrightarrow>
     update_first i t d a (xs @ e # ys) =
       (Some (fst (update_fields t d a e)), xs @ snd (update_fields t d a e) # ys)"
  by (induction xs) (auto split: prod.splits)

lemma update_fields_invalid:
  "a \<le> 0 \<Longrightarrow> update_fields t d (Some a) e =
     (Inl (ValueError ''Amount must be positive.''),
      e\<lparr>title := (case t of None \<Rightarrow> title e | Some t' \<Rightarrow> t'),
        description := (case d of None \<Rightarrow> description e | Some d' \<Rightarrow> d')\<rparr>)"
  by (cases t; cases d) (simp_all add: update_fields_def)

text \<open>
  \<^bold>\<open>C2\<close>. When the collection holds a record with the given id and the amount supplied
  to \<^verbatim>\<open>update_expense\<close> is not positive, the call raises
  \<^verbatim>\<open>ValueError("Amount must be positive.")\<close>. The first record with that id keeps the
  title and the description supplied in the same call (they are not rolled back), its
  amount, id and date are as before, every other record is as before, and the file is
  not written.
\<close>

theorem update_expense_invalid_amount:
  assumes found: "\<exists>e\<in>set (expenses s). id' e = expense_id" and bad: "a \<le> 0"
  shows "\<exists>xs e ys.
           expenses s = xs @ e # ys \<and> (\<forall>x\<in>set xs. id' x \<noteq> expense_id) \<and> id' e = expense_id
           \<and> update_expense expense_id t d (Some a) s =
               (Inl (ValueError ''Amount must be positive.''),
                s\<lparr>expenses := xs @
                   e\<lparr>title := (case t of None \<Rightarrow> title e | Some t' \<Rightarrow> t'),
                     description := (case d of None \<Rightarrow> description e | Some d' \<Rightarrow> d')\<rparr> # ys\<rparr>)
           \<and> data_file (snd (update_expense expense_id t d (Some a) s)) = data_file s"
proof -
  from split_list_first_prop [OF found]
  obtain xs e ys where split: "expenses s = xs @ e # ys" and e: "id' e = expense_id"
    and before: "\<forall>x\<in>set xs. id' x \<noteq> expense_id"
    by blast
  have "update_expense expense_id t d (Some a) s =
      (Inl (ValueError ''Amount must be positive.''),
       s\<lparr>expenses := xs @
          e\<lparr>title := (case t of None \<Rightarrow> title e | Some t' \<Rightarrow> t'),
            description := (case d of None \<Rightarrow> description e | Some d' \<Rightarrow> d')\<rparr> # ys\<rparr>)"
    by (simp add: update_expense_def split update_first_split [OF before e]
        update_fields_invalid [OF bad])
  with split e before show ?thesis by auto
qed

text \<open>\<^verbatim>\<open>update_expense(1, title="Tea", amount=-5)\<close>: the error is raised, the record is
  now titled "Tea" in memory, and the file still holds what it held.\<close>

theorem update_expense_invalid_amount_witness:
  "(\<exists>e\<in>set [coffee, book]. id' e = 1) \<and> (- 5 :: real) \<le> 0
   \<and> update_expense 1 (Some ''Tea'') None (Some (- 5))
        \<lparr>data_file = Parsed (JArray []), expenses = [coffee, book]\<rparr>
      = (Inl (ValueError ''Amount must be positive.''),
         \<lparr>data_file = Parsed (JArray []), expenses = [coffee\<lparr>title := ''Tea''\<rparr>, book]\<rparr>)"
proof -
  have found: "\<exists>e\<in>set (expenses \<lparr>data_file = Parsed (JArray []), expenses = [coffee, book]\<rparr>).
      id' e = 1"
    by (simp add: coffee_def)
  have bad: "(- 5 :: real) \<le> 0" by simp
  from update_expense_invalid_amount [OF found bad, of "Some ''Tea''" None]
  obtain xs e ys where split: "[coffee, book] = xs @ e # ys"
    and before: "\<forall>x\<in>set xs. id' x \<noteq> 1" and e: "id' e = 1"
    and res: "update_expense 1 (Some ''Tea'') None (Some (- 5))
        \<lparr>data_file = Parsed (JArray []), expenses = [coffee, book]\<rparr>
      = (Inl (ValueError ''Amount must be positive.''),
         \<lparr>data_file = Parsed (JArray []), expenses = xs @ e\<lparr>title := ''Tea''\<rparr> # ys\<rparr>)"
    by auto
  have "xs = []"
  proof (cases xs)
    case Nil
    then show ?thesis .
  next
    case (Cons x xs')
    with split before have "id' coffee \<noteq> 1" by simp
    then show ?thesis by (simp add: coffee_def)
  qed
  with split have "e = coffee" "ys = [book]" by simp_all
  with res \<open>xs = []\<close> found bad show ?thesis by simp
qed

text \<open>
  \<^bold>\<open>C3\<close>. \<^verbatim>\<open>add_expense\<close> with an amount that is not positive raises
  \<^verbatim>\<open>ValueError("Amount must be positive.")\<close> and leaves the whole state, the list in
  memory and the file, exactly as it was.
\<close>

theorem add_expense_invalid_amount:
  "a \<le> 0 \<Longrightarrow> add_expense today t d a s = (Inl (ValueError ''Amount must be positive.''), s)"
  by (simp add: add_expense_def)

theorem add_expense_invalid_amount_witness:
  "(0 :: real) \<le> 0
   \<and> add_expense ''04-11-2026'' ''Pen'' ''office'' 0
        \<lparr>data_file = Parsed (JArray [to_dict coffee]), expenses = [coffee]\<rparr>
      = (Inl (ValueError ''Amount must be positive.''),
         \<lparr>data_file = Parsed (JArray [to_dict coffee]), expenses = [coffee]\<rparr>)"
  using add_expense_invalid_amount [of 0 "''04-11-2026''" "''Pen''" "''office''"
      "\<lparr>data_file = Parsed (JArray [to_dict coffee]), expenses = [coffee]\<rparr>"]
  by simp

lemma delete_first_absent: "\<forall>e\<in>set es. id' e \<noteq> i \<Longrightarrow> delete_first i es = None"
  by (induction es) auto

text \<open>
  \<^bold>\<open>C8\<close>. \<^verbatim>\<open>delete_expense\<close> on an id that no record has returns \<^verbatim>\<open>False\<close>
  (the function has no raising path) and leaves the whole state, the list in memory and
  the file, exactly as it was.
\<close>

theorem delete_expense_not_found:
  "\<forall>e\<in>set (expenses s). id' e \<noteq> expense_id \<Longrightarrow> delete_expense expense_id s = (False, s)"
  by (simp add: delete_expense_def delete_first_absent)

theorem delete_expense_not_found_witness:
  "id' coffee \<noteq> 7 \<and> id' book \<noteq> 7
   \<and> delete_expense 7 \<lparr>data_file = Parsed (JArray [to_dict coffee, to_dict book]),
        expenses = [coffee, book]\<rparr>
      = (False, \<lparr>data_file = Parsed (JArray [to_dict coffee, to_dict book]),
           expenses = [coffee, book]\<rparr>)"
proof -
  have ids: "id' coffee \<noteq> 7" "id' book \<noteq> 7" by (simp_all add: coffee_def book_def)
  then have "\<forall>e\<in>set (expenses \<lparr>data_file = Parsed (JArray [to_dict coffee, to_dict book]),
      expenses = [coffee, book]\<rparr>). id' e \<noteq> 7"
    by simp
  from delete_expense_not_found [OF this] ids show ?thesis by simp
qed

section \<open>Storage\<close>

lemma as_number_json: "as_number (number_json a) = Inr a"
  by (cases a) simp_all

lemma from_dict_to_dict: "date e \<noteq> [] \<Longrightarrow> from_dict today (to_dict e) = Inr e"
  by (simp add: from_dict_def to_dict_def and_then_def Expense_init_def as_number_json)

lemma from_dicts_to_dicts:
  "\<forall>e\<in>set es. date e \<noteq> [] \<Longrightarrow> from_dicts today (map to_dict es) = Inr es"
  by (induction es) (simp_all add: from_dict_to_dict and_then_def)

text \<open>
  \<^bold>\<open>C5\<close>. Saving a collection whose records have well-formed dates and loading the file
  again, on any day, gives back the same list: the same records in the same order, each
  with its id, title, description, amount and date.
\<close>

theorem save_load_round_trip:
  assumes "\<forall>e\<in>set (expenses s). date_parses (date e)"
  shows "load_expenses today (data_file (save_expenses s)) = Inr (expenses s)"
proof -
  from assms have "\<forall>e\<in>set (expenses s). date e \<noteq> []"
    by (auto dest: date_parses_nonempty)
  then show ?thesis
    by (simp add: load_expenses_def save_expenses_def and_then_def from_dicts_to_dicts)
qed

theorem save_load_round_trip_witness:
  "date_parses (date coffee) \<and> date_parses (date book)
   \<and> load_expenses ''04-11-2026''
        (data_file (save_expenses \<lparr>data_file = Missing, expenses = [coffee, book]\<rparr>))
      = Inr [coffee, book]"
proof -
  have parses: "date_parses (date coffee)" "date_parses (date book)"
    by (simp_all add: date_parses_def coffee_parses book_parses)
  then have "\<forall>e\<in>set (expenses \<lparr>data_file = Missing, expenses = [coffee, book]\<rparr>).
      date_parses (date e)"
    by simp
  from save_load_round_trip [OF this, of "''04-11-2026''"] parses show ?thesis by simp
qed

lemma from_dict_missing_key:
  assumes "\<exists>k\<in>set [''id'', ''title'', ''description'', ''amount'', ''date'']. map_of kvs k = None"
  shows "\<exists>k. from_dict today (JObject kvs) = Inl (KeyError k)"
  using assms by (auto simp: from_dict_def and_then_def split: option.splits)

lemma from_dicts_first_failure:
  "\<forall>p\<in>set pre. \<exists>e. from_dict today p = Inr e \<Longrightarrow> from_dict today x = Inl err \<Longrightarrow>
     from_dicts today (pre @ x # post) = Inl err"
  by (induction pre) (auto simp: and_then_def)

text \<open>Where the fail-open policy of \<^verbatim>\<open>load_expenses\<close> works: no file, text that
  is not JSON, and an array in which the first element that does not decode is an object
  without one of the five keys.\<close>

lemma load_expenses_empty:
  "load_expenses today Missing = Inr []
   \<and> load_expenses today Unparsable = Inr []
   \<and> ((\<forall>p\<in>set pre. \<exists>e. from_dict today p = Inr e) \<longrightarrow>
      (\<exists>k\<in>set [''id'', ''title'', ''description'', ''amount'', ''date'']. map_of kvs k = None) \<longrightarrow>
        load_expenses today (Parsed (JArray (pre @ JObject kvs # post))) = Inr [])"
proof (intro conjI impI)
  show "load_expenses today Missing = Inr []" by (simp add: load_expenses_def)
  show "load_expenses today Unparsable = Inr []" by (simp add: load_expenses_def and_then_def)
next
  assume pre: "\<forall>p\<in>set pre. \<exists>e. from_dict today p = Inr e"
    and missing: "\<exists>k\<in>set [''id'', ''title'', ''description'', ''amount'', ''date'']. map_of kvs k = None"
  from from_dict_missing_key [OF missing]
  obtain k where "from_dict today (JObject kvs) = Inl (KeyError k)" by blast
  from from_dicts_first_failure [OF pre this]
  show "load_expenses today (Parsed (JArray (pre @ JObject kvs # post))) = Inr []"
    by (simp add: load_expenses_def and_then_def)
qed

text \<open>
  \<^bold>\<open>C6\<close>. The claim is that \<^verbatim>\<open>load_expenses\<close> never raises and gives the empty
  collection for every malformed file. The code does not keep it: the \<^verbatim>\<open>except\<close>
  clause names \<^verbatim>\<open>JSONDecodeError\<close> and \<^verbatim>\<open>KeyError\<close> only. For the file content
  \<^verbatim>\<open>[1]\<close> the subscript \<^verbatim>\<open>1["id"]\<close> raises a \<^verbatim>\<open>TypeError\<close>, and for a
  file whose bytes are not text \<^verbatim>\<open>json.load\<close> raises a \<^verbatim>\<open>UnicodeDecodeError\<close>;
  both leave \<^verbatim>\<open>load_expenses\<close>.
\<close>

theorem load_expenses_raises:
  "load_expenses ''04-11-2026'' (Parsed (JArray [JInt 1]) :: real disk_file) = Inl TypeError
   \<and> load_expenses ''04-11-2026'' (Undecodable :: real disk_file) = Inl UnicodeDecodeError"
  by (simp add: load_expenses_def and_then_def from_dict_def)

text \<open>
  \<^bold>\<open>C9\<close> (as amended). A record rebuilt by \<^verbatim>\<open>from_dict\<close> from a mapping whose date
  field is a non-empty string has that string, verbatim, as its date; when the stored
  string is empty the record gets the current date. In \<^verbatim>\<open>Expense.__init__\<close> the
  current date is used when no date is supplied and when the one supplied is empty, and
  a non-empty one is kept.
\<close>

theorem from_dict_date:
  "(from_dict today data = Inr e \<longrightarrow> getitem data ''date'' = Inr (JString dt) \<longrightarrow>
      date e = (if dt = [] then today else dt))
   \<and> date (Expense_init today i t d a None) = today
   \<and> date (Expense_init today i t d a (Some dt)) = (if dt = [] then today else dt)"
  by (auto simp: from_dict_def and_then_def Expense_init_def split: sum.splits)

theorem from_dict_date_witness:
  "from_dict ''04-11-2026'' (stored ''15-01-2024'') = Inr coffee
   \<and> getitem (stored ''15-01-2024'') ''date'' = Inr (JString ''15-01-2024'')
   \<and> date coffee = ''15-01-2024''"
proof -
  have a: "from_dict ''04-11-2026'' (stored ''15-01-2024'') = Inr coffee"
    by (simp add: from_dict_def stored_def and_then_def Expense_init_def coffee_def)
  have b: "getitem (stored ''15-01-2024'') ''date'' = Inr (JString ''15-01-2024'')"
    by (simp add: stored_def)
  from from_dict_date [where today = "''04-11-2026''" and data = "stored ''15-01-2024''"
      and e = coffee and dt = "''15-01-2024''", THEN conjunct1] a b
  show ?thesis by simp
qed

text \<open>The claim as stated (the stored string verbatim) fails for the stored date
  \<^verbatim>\<open>""\<close>: the record rebuilt on 04-11-2026 is dated 04-11-2026.\<close>

theorem from_dict_date_counterexample:
  "getitem (stored '''') ''date'' = Inr (JString '''')
   \<and> from_dict ''04-11-2026'' (stored '''') = Inr (coffee\<lparr>date := ''04-11-2026''\<rparr>)"
  by (simp add: from_dict_def stored_def and_then_def Expense_init_def coffee_def)

section \<open>Identifiers\<close>

lemma foldl_max_Max: "foldl max (a :: int) xs = Max (insert a (set xs))"
proof (induction xs arbitrary: a)
  case Nil
  then show ?case by simp
next
  case (Cons x xs)
  have "Max (insert (max a x) (set xs)) = Max (insert a (insert x (set xs)))"
  proof (cases "set xs = {}")
    case True
    then show ?thesis by (simp add: max.commute)
  next
    case False
    then show ?thesis by (simp add: Max_insert max.assoc)
  qed
  with Cons show ?case by simp
qed

lemma get_next_id_Max:
  "get_next_id s = (if expenses s = [] then 1 else Max (set (map id' (expenses s))) + 1)"
  by (cases "expenses s") (simp_all add: get_next_id_def foldl_max_Max)

lemma get_next_id_greater: "x \<in> set (expenses s) \<Longrightarrow> id' x < get_next_id s"
proof -
  assume x: "x \<in> set (expenses s)"
  then have ne: "expenses s \<noteq> []" by auto
  from x have "id' x \<le> Max (set (map id' (expenses s)))" by (intro Max_ge) auto
  with ne show ?thesis by (simp add: get_next_id_Max)
qed

lemma add_expense_success:
  "\<not> a \<le> 0 \<Longrightarrow> add_expense today t d a s =
     (Inr (Expense_init today (get_next_id s) t d (FloatNum a) None),
      save_expenses
        (s\<lparr>expenses := expenses s @ [Expense_init today (get_next_id s) t d (FloatNum a) None]\<rparr>))"
  by (simp add: add_expense_def Let_def)

lemma id_Expense_init: "id' (Expense_init today i t d a dt) = i"
  by (simp add: Expense_init_def)

lemma expenses_save: "expenses (save_expenses s) = expenses s"
  by (simp add: save_expenses_def)

lemma delete_first_subseq:
  "delete_first i es = Some es' \<Longrightarrow> distinct (map id' es) \<Longrightarrow>
     distinct (map id' es') \<and> set es' \<subseteq> set es"
proof (induction es arbitrary: es')
  case Nil
  then show ?case by simp
next
  case (Cons e es)
  show ?case
  proof (cases "id' e = i")
    case True
    with Cons.prems show ?thesis by auto
  next
    case False
    with Cons.prems obtain es'' where d: "delete_first i es = Some es''" and es': "es' = e # es''"
      by auto
    from Cons.IH [OF d] Cons.prems(2) have "distinct (map id' es'')" "set es'' \<subseteq> set es" by auto
    with es' Cons.prems(2) show ?thesis by auto
  qed
qed

lemma step_distinct:
  "distinct (map id' (expenses s)) \<Longrightarrow> distinct (map id' (expenses (step today c s)))"
proof (cases c)
  case (Add t d a)
  assume dist: "distinct (map id' (expenses s))"
  show ?thesis
  proof (cases "a \<le> 0")
    case False
    have "get_next_id s \<notin> id' ` set (expenses s)"
      using get_next_id_greater [of _ s] by force
    with dist False Add show ?thesis
      by (simp add: add_expense_success expenses_save id_Expense_init)
  next
    case True
    with dist Add show ?thesis by (simp add: add_expense_def)
  qed
next
  case (Delete i)
  assume dist: "distinct (map id' (expenses s))"
  show ?thesis
  proof (cases "delete_first i (expenses s)")
    case None
    with dist Delete show ?thesis by (simp add: delete_expense_def)
  next
    case (Some es')
    from delete_first_subseq [OF Some dist] Some Delete show ?thesis
      by (simp add: delete_expense_def expenses_save)
  qed
qed

lemma run_distinct:
  "distinct (map id' (expenses s)) \<Longrightarrow> distinct (map id' (expenses (run today cs s)))"
  by (induction cs arbitrary: s) (simp_all add: step_distinct)

lemma adds_increasing:
  "\<forall>c\<in>set cs. is_Add c \<Longrightarrow>
     sorted_wrt (<) (assigned_ids today cs s)
     \<and> (\<forall>i\<in>set (assigned_ids today cs s). \<forall>x\<in>set (expenses s). id' x < i)"
proof (induction cs arbitrary: s)
  case Nil
  then show ?case by simp
next
  case (Cons c cs)
  then obtain t d a where c: "c = Add t d a" by (cases c) auto
  from Cons.prems have rest: "\<forall>c\<in>set cs. is_Add c" by simp
  show ?case
  proof (cases "a \<le> 0")
    case True
    with c Cons.IH [OF rest, of s] show ?thesis by (simp add: add_expense_def)
  next
    case False
    define e where "e = Expense_init today (get_next_id s) t d (FloatNum a) None"
    define s' where "s' = save_expenses (s\<lparr>expenses := expenses s @ [e]\<rparr>)"
    have ids: "assigned_ids today (c # cs) s = get_next_id s # assigned_ids today cs s'"
      using False c by (simp add: add_expense_success e_def s'_def id_Expense_init)
    have exp: "expenses s' = expenses s @ [e]" by (simp add: s'_def expenses_save)
    from Cons.IH [OF rest, of s']
    have sorted: "sorted_wrt (<) (assigned_ids today cs s')"
      and above: "\<forall>i\<in>set (assigned_ids today cs s'). \<forall>x\<in>set (expenses s'). id' x < i"
      by auto
    from above exp have "\<forall>i\<in>set (assigned_ids today cs s'). get_next_id s < i"
      by (auto simp: e_def id_Expense_init)
    moreover from above exp
    have "\<forall>i\<in>set (assigned_ids today cs s'). \<forall>x\<in>set (expenses s). id' x < i" by auto
    ultimately show ?thesis using ids sorted get_next_id_greater [of _ s] by auto
  qed
qed

lemmas run_eval = add_expense_def delete_expense_def get_next_id_def save_expenses_def
  Expense_init_def Let_def

text \<open>
  \<^bold>\<open>C4\<close> (as amended). Start from a collection with unique ids and make any sequence
  of \<^verbatim>\<open>add_expense\<close> and \<^verbatim>\<open>delete_expense\<close> calls. The ids of the live records
  are still unique; the next id is the largest live id plus one, or 1 when the collection
  is empty; a successful add returns a record with that id, which is greater than every
  live id, and appends it (an add is successful when its amount passes the test of the
  code, \<^verbatim>\<open>not amount <= 0\<close>). When the sequence holds no deletion, the ids it assigns
  are strictly increasing.
\<close>

theorem ids_unique_and_next_id:
  assumes "distinct (map id' (expenses s))"
  shows "distinct (map id' (expenses (run today cs s)))
     \<and> get_next_id (run today cs s) =
         (if expenses (run today cs s) = [] then 1
          else Max (set (map id' (expenses (run today cs s)))) + 1)
     \<and> (\<not> a \<le> 0 \<longrightarrow>
          (\<exists>e s'. add_expense today t d a (run today cs s) = (Inr e, s')
             \<and> id' e = get_next_id (run today cs s)
             \<and> (\<forall>x\<in>set (expenses (run today cs s)). id' x < id' e)
             \<and> expenses s' = expenses (run today cs s) @ [e]))
     \<and> ((\<forall>c\<in>set cs. is_Add c) \<longrightarrow> sorted_wrt (<) (assigned_ids today cs s))"
proof (intro conjI impI)
  show "distinct (map id' (expenses (run today cs s)))"
    using assms by (rule run_distinct)
  show "get_next_id (run today cs s) =
      (if expenses (run today cs s) = [] then 1
       else Max (set (map id' (expenses (run today cs s)))) + 1)"
    by (rule get_next_id_Max)
next
  assume "\<not> a \<le> 0"
  then show "\<exists>e s'. add_expense today t d a (run today cs s) = (Inr e, s')
      \<and> id' e = get_next_id (run today cs s)
      \<and> (\<forall>x\<in>set (expenses (run today cs s)). id' x < id' e)
      \<and> expenses s' = expenses (run today cs s) @ [e]"
    by (simp add: add_expense_success id_Expense_init expenses_save get_next_id_greater)
next
  assume "\<forall>c\<in>set cs. is_Add c"
  then show "sorted_wrt (<) (assigned_ids today cs s)"
    using adds_increasing by blast
qed

theorem ids_unique_and_next_id_witness:
  "distinct (map id' (expenses empty_tracker)) \<and> \<not> (3 / 2 :: real) \<le> 0
   \<and> is_Add (Add ''Coffee'' ''morning'' (7 / 2)) \<and> is_Add (Add ''Book'' ''novel'' 12)
   \<and> map id' (expenses (run ''04-11-2026''
        [Add ''Coffee'' ''morning'' (7 / 2), Add ''Book'' ''novel'' 12] empty_tracker)) = [1, 2]
   \<and> get_next_id (run ''04-11-2026''
        [Add ''Coffee'' ''morning'' (7 / 2), Add ''Book'' ''novel'' 12] empty_tracker) = 3
   \<and> assigned_ids ''04-11-2026''
        [Add ''Coffee'' ''morning'' (7 / 2), Add ''Book'' ''novel'' 12] empty_tracker = [1, 2]
   \<and> sorted_wrt (<) (assigned_ids ''04-11-2026''
        [Add ''Coffee'' ''morning'' (7 / 2), Add ''Book'' ''novel'' 12] empty_tracker)
   \<and> (case fst (add_expense ''04-11-2026'' ''Pen'' ''office'' (3 / 2)
          (run ''04-11-2026''
             [Add ''Coffee'' ''morning'' (7 / 2), Add ''Book'' ''novel'' 12] empty_tracker)) of
        Inl err \<Rightarrow> False
      | Inr e \<Rightarrow> id' e = 3)"
proof -
  have d: "distinct (map id' (expenses empty_tracker))" by (simp add: empty_tracker_def)
  have ev: "map id' (expenses (run ''04-11-2026''
        [Add ''Coffee'' ''morning'' (7 / 2), Add ''Book'' ''novel'' 12] empty_tracker)) = [1, 2]"
    "assigned_ids ''04-11-2026''
        [Add ''Coffee'' ''morning'' (7 / 2), Add ''Book'' ''novel'' 12] empty_tracker = [1, 2]"
    "get_next_id (run ''04-11-2026''
        [Add ''Coffee'' ''morning'' (7 / 2), Add ''Book'' ''novel'' 12] empty_tracker) = 3"
    "case fst (add_expense ''04-11-2026'' ''Pen'' ''office'' (3 / 2)
          (run ''04-11-2026''
             [Add ''Coffee'' ''morning'' (7 / 2), Add ''Book'' ''novel'' 12] empty_tracker)) of
        Inl err \<Rightarrow> False
      | Inr e \<Rightarrow> id' e = 3"
    by (simp_all add: empty_tracker_def run_eval)
  from ids_unique_and_next_id [OF d, of "''04-11-2026''"
      "[Add ''Coffee'' ''morning'' (7 / 2), Add ''Book'' ''novel'' 12]" "3 / 2" "''Pen''" "''office''"]
    d ev
  show ?thesis by simp
qed

text \<open>The claim as stated (a deleted id is never assigned again, and assigned ids
  increase strictly) fails when the record with the largest id is deleted: add, add,
  delete 2, add assigns the ids 1, 2 and 2.\<close>

theorem ids_unique_and_next_id_counterexample:
  "assigned_ids ''04-11-2026''
     [Add ''Coffee'' ''morning'' (7 / 2), Add ''Book'' ''novel'' 12, Delete 2,
      Add ''Pen'' ''office'' (3 / 2)] empty_tracker = [1, 2, 2]"
  by (simp add: empty_tracker_def run_eval)

end
